theory Spec2Isabelle
  imports Main "HOL-Library.AList"
begin

section \<open>Values, rows and results\<close>

text \<open>
  The module \<^verbatim>\<open>src/js/supabase.js\<close> is a facade over the Supabase SDK. The values it
  handles are JSON values: \<open>null\<close>, \<open>undefined\<close>, booleans, numbers and strings. \<open>JNum n\<close>
  is the number whose value is the integer \<open>n\<close>; numbers with a fraction are outside
  the model. A table row, an update object and an object literal passed to \<open>insert\<close> are
  lists of key/value pairs.
\<close>

datatype jv = JNull | JUndefined | JBool bool | JNum int | JStr string

type_synonym row = "(string \<times> jv) list"

text \<open>JavaScript truthiness, as \<open>if (x)\<close>, \<open>x && y\<close>, \<open>x || y\<close> and \<open>c ? a : b\<close> test it.\<close>

fun truthy :: "jv \<Rightarrow> bool" where
  "truthy JNull = False"
| "truthy JUndefined = False"
| "truthy (JBool b) = b"
| "truthy (JNum n) = (n \<noteq> 0)"
| "truthy (JStr s) = (s \<noteq> [])"

text \<open>Property access \<open>obj.key\<close>: \<open>undefined\<close> when the object has no such key.\<close>

definition get_prop :: "row \<Rightarrow> string \<Rightarrow> jv" where
  "get_prop r k = (case map_of r k of None \<Rightarrow> JUndefined | Some v \<Rightarrow> v)"

text \<open>
  The string of a number, as a template literal and \<open>parseInt\<close> produce it: the decimal
  digits of an integer below \<open>10^21\<close> in magnitude, and exponent notation (\<open>1e+21\<close>) from
  there on. The exponent notation is the shortest decimal that reads back as the same
  double; it is a parameter, \<open>ef\<close>, which the world supplies.
\<close>

fun digits :: "nat \<Rightarrow> string" where
  "digits n = (if n < 10 then [''0123456789'' ! n]
               else digits (n div 10) @ [''0123456789'' ! (n mod 10)])"

declare digits.simps [simp del]

definition show_int :: "int \<Rightarrow> string" where
  "show_int i = (if i < 0 then CHR ''-'' # digits (nat (- i)) else digits (nat i))"

definition Number_toString :: "(int \<Rightarrow> string) \<Rightarrow> int \<Rightarrow> string" where
  "Number_toString ef n = (if \<bar>n\<bar> < 10 ^ 21 then show_int n else ef n)"

text \<open>\<open>`${v}`\<close>: the string a template literal substitutes for a value.\<close>

fun to_string :: "(int \<Rightarrow> string) \<Rightarrow> jv \<Rightarrow> string" where
  "to_string ef JNull = ''null''"
| "to_string ef JUndefined = ''undefined''"
| "to_string ef (JBool b) = (if b then ''true'' else ''false'')"
| "to_string ef (JNum n) = Number_toString ef n"
| "to_string ef (JStr s) = s"

datatype err = Err (message: string)

text \<open>
  The objects the functions return: \<open>{data, error}\<close>, \<open>{error}\<close> or \<open>{url}\<close>. A key that is
  missing or \<open>null\<close> is \<open>None\<close>.
\<close>

record 'd result =
  data :: "'d option"
  error :: "err option"
  url :: "string option"

datatype user = User (id_of: string)

text \<open>The \<open>data\<close> of an auth reply, \<open>{user, session}\<close>; the module reads only \<open>user\<close>.\<close>

datatype auth_data = AuthData (user: "user option")

datatype jsfile = File (file_name: string)


datatype exn = RangeError

section \<open>The backend and the page\<close>

text \<open>The requests the module sends through the SDK, with their arguments.\<close>

datatype call =
    Auth_signUp string string string
  | Auth_signInWithPassword string string
  | Auth_signOut
  | Auth_getUser
  | Rpc string row
  | From_insert string row
  | From_update string row row
  | From_delete string row
  | From_select string row "(string \<times> bool) option"
  | Storage_upload string string bool

text \<open>
  Everything outside the module is one record. \<open>supabase\<close> is the module-level handle
  (\<open>False\<close> is \<open>null\<close>). \<open>calls\<close> is the log of requests sent so far. \<open>db\<close> holds the
  backend's tables. The backend's answers are functions of the number of requests sent
  before and of the request itself, so that any pattern of failures and any reply can be
  written down: \<open>auth_reply\<close> for \<open>signUp\<close> and \<open>signInWithPassword\<close> (the data object is
  always there), \<open>getUser_reply\<close> for \<open>data.user\<close> of \<open>auth.getUser\<close>, \<open>rpc_object\<close> and
  \<open>rpc_list\<close> for remote procedures (\<open>Inl\<close> is \<open>{data: null, error}\<close>, \<open>Inr d\<close> is
  \<open>{data: d, error: null}\<close>), \<open>select_reply\<close> for \<open>select\<close> queries, and \<open>write_error\<close> for
  inserts, updates, deletes, uploads and sign-out (\<open>None\<close>: carried out).
  \<open>getPublicUrl\<close> is the SDK's local URL builder. The rest is the browser: the readings of
  the clock in order, the number of readings taken, the local time zone adjustment of
  ECMAScript (\<open>LocalTZA(t, isUTC)\<close>), the built-ins \<open>Date.parse\<close>, \<open>toISOString\<close> and
  \<open>toLocaleDateString\<close>, the exponent notation of large numbers, and
  \<open>window.location.pathname\<close>.
\<close>

record world =
  supabase :: bool
  calls :: "call list"
  db :: "string \<Rightarrow> row list"
  auth_reply :: "nat \<Rightarrow> call \<Rightarrow> auth_data \<times> err option"
  getUser_reply :: "nat \<Rightarrow> user option"
  rpc_object :: "nat \<Rightarrow> call \<Rightarrow> err + row option"
  rpc_list :: "nat \<Rightarrow> call \<Rightarrow> err + row list option"
  select_reply :: "nat \<Rightarrow> call \<Rightarrow> err + row list option"
  write_error :: "nat \<Rightarrow> call \<Rightarrow> err option"
  getPublicUrl :: "string \<Rightarrow> string \<Rightarrow> string"
  clock :: "nat \<Rightarrow> int"
  ticks :: nat
  LocalTZA :: "int \<Rightarrow> bool \<Rightarrow> int"
  Date_parse :: "string \<Rightarrow> int option"
  toISOString :: "int \<Rightarrow> string"
  toLocaleDateString :: "int \<Rightarrow> string"
  exponent_form :: "int \<Rightarrow> string"
  pathname :: string

subsection \<open>What a write does to the tables\<close>

text \<open>
  \<open>.eq(column, value)\<close> filters keep the rows whose column has that value; an update
  assigns the update object's columns on every row that passes all filters; an insert
  appends the row (keys whose value is \<open>undefined\<close> are not serialised); a delete removes
  the rows that pass. Requests that are not table writes leave the tables alone.
\<close>

definition matches :: "row \<Rightarrow> row \<Rightarrow> bool" where
  "matches flt r = list_all (\<lambda>(c, v). map_of r c = Some v) flt"

definition assign :: "row \<Rightarrow> row \<Rightarrow> row" where
  "assign upd r = fold (\<lambda>(c, v). AList.update c v) upd r"

fun effect :: "call \<Rightarrow> (string \<Rightarrow> row list) \<Rightarrow> (string \<Rightarrow> row list)" where
  "effect (From_insert t r) d = d(t := d t @ [filter (\<lambda>(k, v). v \<noteq> JUndefined) r])"
| "effect (From_update t upd flt) d =
     d(t := map (\<lambda>r. if matches flt r then assign upd r else r) (d t))"
| "effect (From_delete t flt) d = d(t := filter (\<lambda>r. \<not> matches flt r) (d t))"
| "effect _ d = d"

subsection \<open>Sending a request\<close>

definition sent :: "call \<Rightarrow> world \<Rightarrow> world" where
  "sent c w = w\<lparr>calls := calls w @ [c]\<rparr>"

text \<open>A write: logged; refused with an error and no effect, or carried out.\<close>

definition mutate :: "call \<Rightarrow> world \<Rightarrow> unit result \<times> world" where
  "mutate c w =
     (let e = write_error w (length (calls w)) c
      in (\<lparr>data = None, error = e, url = None\<rparr>,
          (sent c w)\<lparr>db := (if e = None then effect c (db w) else db w)\<rparr>))"

text \<open>A query that returns rows; the caller destructures \<open>{data, error}\<close>.\<close>

definition query :: "(world \<Rightarrow> nat \<Rightarrow> call \<Rightarrow> err + 'a option) \<Rightarrow> call \<Rightarrow> world
    \<Rightarrow> ('a option \<times> err option) \<times> world" where
  "query reply c w =
     ((case reply w (length (calls w)) c of
         Inl e \<Rightarrow> (None, Some e)
       | Inr d \<Rightarrow> (d, None)),
      sent c w)"

text \<open>\<open>new Date()\<close> and \<open>Date.now()\<close>: the next reading of the clock.\<close>

definition new_Date :: "world \<Rightarrow> int \<times> world" where
  "new_Date w = (clock w (ticks w), w\<lparr>ticks := Suc (ticks w)\<rparr>)"

section \<open>Dates\<close>

text \<open>
  A \<open>Date\<close> object holds a time value: milliseconds since the epoch, or \<open>NaN\<close> (\<open>None\<close>,
  an invalid date). The methods follow ECMAScript: \<open>LocalTime(t) = t + LocalTZA(t, true)\<close>,
  \<open>UTC(t) = t - LocalTZA(t, false)\<close>, \<open>Day(t) = floor(t / msPerDay)\<close>, and \<open>TimeClip\<close>
  turns a value beyond 8.64e15 in magnitude into \<open>NaN\<close>.
\<close>

definition msPerDay :: int where
  "msPerDay = 86400000"


definition TimeClip :: "int \<Rightarrow> int option" where
  "TimeClip t = (if \<bar>t\<bar> > 8640000000000000 then None else Some t)"

definition LocalTime :: "(int \<Rightarrow> bool \<Rightarrow> int) \<Rightarrow> int \<Rightarrow> int" where
  "LocalTime tza t = t + tza t True"

definition UTC :: "(int \<Rightarrow> bool \<Rightarrow> int) \<Rightarrow> int \<Rightarrow> int" where
  "UTC tza t = t - tza t False"


text \<open>
  \<open>d.setDate(d.getDate() + k)\<close>. With \<open>t' = LocalTime(t)\<close>, \<open>setDate(dt)\<close> stores
  \<open>TimeClip(UTC(MakeDate(MakeDay(Year(t'), Month(t'), dt), TimeWithinDay(t'))))\<close>, and
  \<open>MakeDay(Year(t'), Month(t'), getDate() + k)\<close> is the day number \<open>Day(t') + k\<close>: the local
  calendar day moves by \<open>k\<close> and the local time within the day stays, so the new local
  time is \<open>t' + k * msPerDay\<close>. A \<open>NaN\<close> argument gives an invalid date.
\<close>

definition setDate_plus ::
    "(int \<Rightarrow> bool \<Rightarrow> int) \<Rightarrow> int option \<Rightarrow> int option \<Rightarrow> int option" where
  "setDate_plus tza d k =
     (case (d, k) of
        (Some t, Some n) \<Rightarrow> TimeClip (UTC tza (LocalTime tza t + n * msPerDay))
      | _ \<Rightarrow> None)"

text \<open>\<open>new Date(value)\<close>: a string is parsed, anything else is converted to a number.\<close>

fun Date_of :: "(string \<Rightarrow> int option) \<Rightarrow> jv \<Rightarrow> int option" where
  "Date_of parse (JStr s) = parse s"
| "Date_of parse (JNum n) = TimeClip n"
| "Date_of parse (JBool b) = Some (if b then 1 else 0)"
| "Date_of parse JNull = Some 0"
| "Date_of parse JUndefined = None"


text \<open>\<open>d.toISOString()\<close> throws a \<open>RangeError\<close> on an invalid date.\<close>

definition Date_toISOString :: "(int \<Rightarrow> string) \<Rightarrow> int option \<Rightarrow> exn + string" where
  "Date_toISOString render d =
     (case d of None \<Rightarrow> Inl RangeError | Some t \<Rightarrow> Inr (render t))"

definition Date_toLocaleDateString :: "(int \<Rightarrow> string) \<Rightarrow> int option \<Rightarrow> string" where
  "Date_toLocaleDateString fmt d =
     (case d of None \<Rightarrow> ''Invalid Date'' | Some t \<Rightarrow> fmt t)"

subsection \<open>parseInt\<close>

text \<open>
  \<open>parseInt(x)\<close> with no radix: the argument is turned into a string, leading white space
  is dropped, a sign is read, a \<open>0x\<close> prefix selects radix 16, and the longest prefix of
  digits is the value; \<open>NaN\<close> (\<open>None\<close>) when there is no digit. So \<open>null\<close>, \<open>undefined\<close>,
  \<open>true\<close> and \<open>false\<close> give \<open>NaN\<close>, an integer below \<open>10^21\<close> in magnitude gives itself,
  and a number in exponent notation gives the digits before its point or exponent.
\<close>

definition is_space :: "char \<Rightarrow> bool" where
  "is_space c = (c \<in> set [CHR '' '', CHR 0x09, CHR 0x0A, CHR 0x0B, CHR 0x0C, CHR 0x0D, CHR 0xA0])"

definition digit_value :: "char \<Rightarrow> nat option" where
  "digit_value c =
     (if c \<in> set ''0123456789'' then Some (of_char c - 48)
      else if c \<in> set ''abcdef'' then Some (of_char c - 87)
      else if c \<in> set ''ABCDEF'' then Some (of_char c - 55)
      else None)"

definition parse_digits :: "nat \<Rightarrow> string \<Rightarrow> int option" where
  "parse_digits R s =
     (let Z = takeWhile (\<lambda>c. case digit_value c of None \<Rightarrow> False | Some v \<Rightarrow> v < R) s
      in if Z = [] then None
         else Some (foldl (\<lambda>a c. a * int R + (case digit_value c of None \<Rightarrow> 0 | Some v \<Rightarrow> int v))
                      0 Z))"

definition parseInt_string :: "string \<Rightarrow> int option" where
  "parseInt_string s =
     (let S1 = dropWhile is_space s;
          sign = (if take 1 S1 = ''-'' then - 1 else 1);
          S2 = (if take 1 S1 = ''-'' \<or> take 1 S1 = ''+'' then drop 1 S1 else S1);
          hex = (take 2 S2 = ''0x'' \<or> take 2 S2 = ''0X'');
          S3 = (if hex then drop 2 S2 else S2)
      in map_option (\<lambda>n. sign * n) (parse_digits (if hex then 16 else 10) S3))"

definition parseInt :: "(int \<Rightarrow> string) \<Rightarrow> jv \<Rightarrow> int option" where
  "parseInt ef v = parseInt_string (to_string ef v)"

section \<open>The module\<close>

text \<open>
  Each \<open>async\<close> function takes the world and returns its result with the world after it.
  Every \<open>await\<close> is a sequential step. \<open>console.error\<close> is not modelled.
\<close>

definition not_configured :: "'d result" where
  "not_configured = \<lparr>data = None, error = Some (Err ''Supabase not configured''), url = None\<rparr>"

definition not_authenticated :: "'d result" where
  "not_authenticated = \<lparr>data = None, error = Some (Err ''Not authenticated''), url = None\<rparr>"

definition signUp :: "string \<Rightarrow> string \<Rightarrow> string \<Rightarrow> world \<Rightarrow> auth_data result \<times> world" where
  "signUp email password fullName w =
     (if \<not> supabase w then (not_configured, w)
      else
        let c = Auth_signUp email password fullName;
            (d, e) = auth_reply w (length (calls w)) c
        in (\<lparr>data = Some d, error = e, url = None\<rparr>, sent c w))"

definition signOut :: "world \<Rightarrow> unit result \<times> world" where
  "signOut w = (if \<not> supabase w then (not_configured, w) else mutate Auth_signOut w)"

definition getCurrentUser :: "world \<Rightarrow> user option \<times> world" where
  "getCurrentUser w =
     (if \<not> supabase w then (None, w)
      else (getUser_reply w (length (calls w)), sent Auth_getUser w))"

definition updateProfile :: "row \<Rightarrow> world \<Rightarrow> unit result \<times> world" where
  "updateProfile updates w =
     (if \<not> supabase w then (not_configured, w)
      else
        let (u, w1) = getCurrentUser w
        in case u of
             None \<Rightarrow> (not_authenticated, w1)
           | Some usr \<Rightarrow> mutate (From_update ''profiles'' updates [(''id'', JStr (id_of usr))]) w1)"

definition checkUserBan :: "world \<Rightarrow> row option \<times> world" where
  "checkUserBan w =
     (if \<not> supabase w then (None, w)
      else
        let ((d, e), w1) = query rpc_object (Rpc ''get_user_ban_status'' []) w
        in if e \<noteq> None then (None, w1) else (d, w1))"

definition trackVisit :: "jv \<Rightarrow> world \<Rightarrow> unit \<times> world" where
  "trackVisit userId0 w =
     (let userId = (if userId0 = JUndefined then JNull else userId0)
      in if \<not> supabase w then ((), w)
         else
           let (t, w1) = new_Date w;
               (r, w2) = mutate (From_insert ''site_visits''
                           [(''user_id'', userId),
                            (''page_path'', JStr (pathname w1)),
                            (''visited_at'', JStr (toISOString w1 t))]) w1
           in ((), w2))"

definition signIn :: "string \<Rightarrow> string \<Rightarrow> world \<Rightarrow> auth_data result \<times> world" where
  "signIn email password w =
     (if \<not> supabase w then (not_configured, w)
      else
        let c = Auth_signInWithPassword email password;
            (d, e) = auth_reply w (length (calls w)) c;
            w1 = sent c w
        in case (e, user d) of
             (None, Some usr) \<Rightarrow>
               let (banData, w2) = checkUserBan w1
               in (case banData of
                     Some b \<Rightarrow>
                       if truthy (get_prop b ''is_active'') then
                         let (r, w3) = mutate Auth_signOut w2
                         in (\<lparr>data = None,
                              error = Some (Err (''Your account has been suspended. Reason: ''
                                @ to_string (exponent_form w3) (get_prop b ''reason'')
                                @ (if truthy (get_prop b ''ban_until'')
                                   then '' Until: '' @ Date_toLocaleDateString (toLocaleDateString w3)
                                          (Date_of (Date_parse w3) (get_prop b ''ban_until''))
                                   else '' (Permanent)''))),
                              url = None\<rparr>, w3)
                       else
                         let (v, w3) = trackVisit (JStr (id_of usr)) w2
                         in (\<lparr>data = Some d, error = e, url = None\<rparr>, w3)
                   | None \<Rightarrow>
                       let (v, w3) = trackVisit (JStr (id_of usr)) w2
                       in (\<lparr>data = Some d, error = e, url = None\<rparr>, w3))
           | _ \<Rightarrow> (\<lparr>data = Some d, error = e, url = None\<rparr>, w1))"

text \<open>\<open>data || []\<close>: an array, even an empty one, is truthy; \<open>null\<close> gives \<open>[]\<close>.\<close>

definition or_empty :: "row list option \<Rightarrow> row list" where
  "or_empty d = (case d of None \<Rightarrow> [] | Some rs \<Rightarrow> rs)"

definition getCategories :: "world \<Rightarrow> row list \<times> world" where
  "getCategories w =
     (if \<not> supabase w then ([], w)
      else
        let ((d, e), w1) = query select_reply
                             (From_select ''categories'' [] (Some (''name'', True))) w
        in (or_empty d, w1))"

definition addCategory :: "jv \<Rightarrow> jv \<Rightarrow> jv \<Rightarrow> jv \<Rightarrow> world \<Rightarrow> unit result \<times> world" where
  "addCategory name slug icon description w =
     (if \<not> supabase w then (not_configured, w)
      else mutate (From_insert ''categories''
             [(''name'', name), (''slug'', slug), (''icon'', icon),
              (''description'', description)]) w)"

definition updateCategory :: "jv \<Rightarrow> row \<Rightarrow> world \<Rightarrow> unit result \<times> world" where
  "updateCategory ident updates w =
     (if \<not> supabase w then (not_configured, w)
      else mutate (From_update ''categories'' updates [(''id'', ident)]) w)"

definition deleteCategory :: "jv \<Rightarrow> world \<Rightarrow> unit result \<times> world" where
  "deleteCategory ident w =
     (if \<not> supabase w then (not_configured, w)
      else mutate (From_delete ''categories'' [(''id'', ident)]) w)"

definition getMaterials :: "world \<Rightarrow> row list \<times> world" where
  "getMaterials w =
     (if \<not> supabase w then ([], w)
      else
        let ((d, e), w1) = query select_reply
                             (From_select ''materials'' [(''status'', JStr ''published'')]
                                (Some (''created_at'', False))) w
        in (or_empty d, w1))"

definition getAllMaterials :: "world \<Rightarrow> row list \<times> world" where
  "getAllMaterials w =
     (if \<not> supabase w then ([], w)
      else
        let ((d, e), w1) = query select_reply
                             (From_select ''materials'' [] (Some (''created_at'', False))) w
        in (or_empty d, w1))"

text \<open>\<open>user?.id\<close>: \<open>undefined\<close> when there is no user.\<close>

definition opt_id :: "user option \<Rightarrow> jv" where
  "opt_id u = (case u of None \<Rightarrow> JUndefined | Some usr \<Rightarrow> JStr (id_of usr))"

definition addMaterial :: "jv \<Rightarrow> jv \<Rightarrow> jv \<Rightarrow> jv \<Rightarrow> jv \<Rightarrow> world \<Rightarrow> unit result \<times> world" where
  "addMaterial title description imageUrl telegramLink category w =
     (if \<not> supabase w then (not_configured, w)
      else
        let (u, w1) = getCurrentUser w
        in mutate (From_insert ''materials''
             [(''title'', title), (''description'', description), (''image_url'', imageUrl),
              (''telegram_link'', telegramLink), (''category'', category),
              (''created_by'', opt_id u), (''status'', JStr ''published'')]) w1)"

definition updateMaterial :: "jv \<Rightarrow> row \<Rightarrow> world \<Rightarrow> unit result \<times> world" where
  "updateMaterial ident updates w =
     (if \<not> supabase w then (not_configured, w)
      else mutate (From_update ''materials'' updates [(''id'', ident)]) w)"

definition deleteMaterial :: "jv \<Rightarrow> world \<Rightarrow> unit result \<times> world" where
  "deleteMaterial ident w =
     (if \<not> supabase w then (not_configured, w)
      else mutate (From_delete ''materials'' [(''id'', ident)]) w)"

text \<open>
  \<open>name.replace(/[^a-zA-Z0-9.]/g, '_')\<close> and \<open>name.split('.').pop()\<close>, on strings as
  sequences of code units.
\<close>

definition sanitize :: "string \<Rightarrow> string" where
  "sanitize s =
     map (\<lambda>c. if c \<in> set (''abcdefghijklmnopqrstuvwxyz'' @ ''ABCDEFGHIJKLMNOPQRSTUVWXYZ''
                             @ ''0123456789.'')
               then c else CHR ''_'') s"

definition extension :: "string \<Rightarrow> string" where
  "extension s = rev (takeWhile (\<lambda>c. c \<noteq> CHR ''.'') (rev s))"

definition uploadImage :: "jsfile \<Rightarrow> string option \<Rightarrow> world \<Rightarrow> unit result \<times> world" where
  "uploadImage f bucket0 w =
     (let bucket = (case bucket0 of None \<Rightarrow> ''material-images'' | Some b \<Rightarrow> b)
      in if \<not> supabase w then (not_configured, w)
         else
           let (t, w1) = new_Date w;
               fileName = Number_toString (exponent_form w1) t @ ''-''
                            @ sanitize (file_name f);
               (r, w2) = mutate (Storage_upload bucket fileName False) w1
           in case error r of
                Some e \<Rightarrow> (\<lparr>data = None, error = Some e, url = None\<rparr>, w2)
              | None \<Rightarrow> (\<lparr>data = None, error = None,
                           url = Some (getPublicUrl w2 bucket fileName)\<rparr>, w2))"

definition uploadAvatar :: "jsfile \<Rightarrow> world \<Rightarrow> unit result \<times> world" where
  "uploadAvatar f w =
     (if \<not> supabase w then (not_configured, w)
      else
        let (u, w1) = getCurrentUser w
        in case u of
             None \<Rightarrow> (not_authenticated, w1)
           | Some usr \<Rightarrow>
               let (t, w2) = new_Date w1;
                   fileName = id_of usr @ ''-'' @ Number_toString (exponent_form w2) t
                                @ ''.'' @ extension (file_name f);
                   (r, w3) = mutate (Storage_upload ''profile-avatars'' fileName True) w2
               in case error r of
                    Some e \<Rightarrow> (\<lparr>data = None, error = Some e, url = None\<rparr>, w3)
                  | None \<Rightarrow>
                      let publicUrl = getPublicUrl w3 ''profile-avatars'' fileName;
                          (p, w4) = updateProfile [(''avatar_url'', JStr publicUrl)] w3
                      in (\<lparr>data = None, error = None, url = Some publicUrl\<rparr>, w4))"

definition getAllUsers :: "world \<Rightarrow> row list \<times> world" where
  "getAllUsers w =
     (if \<not> supabase w then ([], w)
      else
        let ((d, e), w1) = query rpc_list (Rpc ''get_all_users_admin'' []) w
        in if e \<noteq> None then ([], w1) else (or_empty d, w1))"

definition updateUserRole :: "jv \<Rightarrow> jv \<Rightarrow> world \<Rightarrow> unit result \<times> world" where
  "updateUserRole userId role w =
     (if \<not> supabase w then (not_configured, w)
      else mutate (From_update ''profiles'' [(''role'', role)] [(''id'', userId)]) w)"

text \<open>
  \<open>banUser\<close> is the one function that can throw: \<open>toISOString\<close> on the invalid date that
  a \<open>NaN\<close> day count or a date out of range leaves. \<open>Inl\<close> is the exception.
\<close>

definition banUser :: "jv \<Rightarrow> jv \<Rightarrow> jv \<Rightarrow> jv \<Rightarrow> world \<Rightarrow> (exn + unit result) \<times> world" where
  "banUser userId reason banType duration0 w =
     (let duration = (if duration0 = JUndefined then JNull else duration0)
      in if \<not> supabase w then (Inr not_configured, w)
         else
           let (admin, w1) = getCurrentUser w;
               (banUntil, w2) =
                 (if banType = JStr ''temporary'' \<and> truthy duration then
                    let (t, w') = new_Date w1
                    in (map_sum (\<lambda>x. x) JStr
                          (Date_toISOString (toISOString w')
                             (setDate_plus (LocalTZA w') (Some t)
                                (parseInt (exponent_form w') duration))), w')
                  else (Inr JNull, w1))
           in case banUntil of
                Inl x \<Rightarrow> (Inl x, w2)
              | Inr until \<Rightarrow>
                  let (r, w3) = mutate (From_insert ''user_bans''
                                  [(''user_id'', userId),
                                   (''banned_by'', opt_id admin),
                                   (''reason'', reason),
                                   (''ban_type'', banType),
                                   (''ban_until'', until),
                                   (''is_active'', JBool True)]) w2
                  in case error r of
                       None \<Rightarrow>
                         let (p, w4) = mutate (From_update ''profiles''
                                         [(''is_banned'', JBool True)] [(''id'', userId)]) w3
                         in (Inr \<lparr>data = None, error = None, url = None\<rparr>, w4)
                     | Some e \<Rightarrow> (Inr \<lparr>data = None, error = Some e, url = None\<rparr>, w3))"

definition unbanUser :: "jv \<Rightarrow> world \<Rightarrow> unit result \<times> world" where
  "unbanUser userId w =
     (if \<not> supabase w then (not_configured, w)
      else
        let (r, w1) = mutate (From_update ''user_bans'' [(''is_active'', JBool False)]
                        [(''user_id'', userId), (''is_active'', JBool True)]) w
        in mutate (From_update ''profiles'' [(''is_banned'', JBool False)]
             [(''id'', userId)]) w1)"

definition getUserBanHistory :: "jv \<Rightarrow> world \<Rightarrow> row list \<times> world" where
  "getUserBanHistory userId w =
     (if \<not> supabase w then ([], w)
      else
        let ((d, e), w1) = query select_reply
                             (From_select ''user_bans'' [(''user_id'', userId)]
                                (Some (''created_at'', False))) w
        in (or_empty d, w1))"


section \<open>Example worlds\<close>

text \<open>
  A configured page in a zone with no offset from UTC, whose backend accepts every write,
  signs every credential in as user \<open>u1\<close>, reports no ban and holds empty tables; and the
  same page with the handle unset. Of the large numbers only \<open>1e21\<close> is printed as the
  runtime prints it.
\<close>

definition world0 :: world where
  "world0 =
     \<lparr>supabase = True, calls = [], db = (\<lambda>t. []),
      auth_reply = (\<lambda>n c. (AuthData (Some (User ''u1'')), None)),
      getUser_reply = (\<lambda>n. Some (User ''u1'')),
      rpc_object = (\<lambda>n c. Inr None),
      rpc_list = (\<lambda>n c. Inr (Some [])),
      select_reply = (\<lambda>n c. Inr (Some [])),
      write_error = (\<lambda>n c. None),
      getPublicUrl = (\<lambda>b f. ''https://cdn.example/'' @ b @ ''/'' @ f),
      clock = (\<lambda>n. 1712145600000), ticks = 0,
      LocalTZA = (\<lambda>t u. 0),
      Date_parse = (\<lambda>s. None),
      toISOString = (\<lambda>t. if t = 1712750400000 then ''2024-04-10T12:00:00.000Z''
                          else if t = 1712145600000 then ''2024-04-03T12:00:00.000Z''
                          else ''ISO:'' @ show_int t),
      toLocaleDateString = (\<lambda>t. if t = 1712750400000 then ''4/10/2024''
                                 else ''DATE:'' @ show_int t),
      exponent_form = (\<lambda>n. if n = 10 ^ 21 then ''1e+21'' else ''1e+22''),
      pathname = ''/''\<rparr>"

definition world_off :: world where
  "world_off = world0\<lparr>supabase := False\<rparr>"

text \<open>Backends that refuse one write: the third, the fourth or the second request.\<close>

definition world_visit_refused :: world where
  "world_visit_refused =
     world0\<lparr>write_error := (\<lambda>n c. if n = 2 then Some (Err ''permission denied'') else None)\<rparr>"

definition world_profile_refused :: world where
  "world_profile_refused =
     world0\<lparr>write_error := (\<lambda>n c. if n = 3 then Some (Err ''permission denied'') else None)\<rparr>"

definition world_insert_refused :: world where
  "world_insert_refused =
     world0\<lparr>write_error := (\<lambda>n c. if n = 1 then Some (Err ''permission denied'') else None)\<rparr>"

text \<open>A page with no session.\<close>

definition world_no_session :: world where
  "world_no_session = world0\<lparr>getUser_reply := (\<lambda>n. None)\<rparr>"

text \<open>
  Two ban records for user \<open>u2\<close>, as \<open>banUser\<close> writes them: a temporary ban of seven
  days, and a temporary ban for which no day count was given. \<open>world_banned b\<close> signs
  \<open>u2\<close> in and reports \<open>b\<close> as the ban status.
\<close>

definition temporary_ban :: row where
  "temporary_ban =
     [(''user_id'', JStr ''u2''), (''banned_by'', JStr ''u1''), (''reason'', JStr ''spam''),
      (''ban_type'', JStr ''temporary''), (''ban_until'', JStr ''2024-04-10T12:00:00.000Z''),
      (''is_active'', JBool True)]"

definition temporary_ban_without_expiry :: row where
  "temporary_ban_without_expiry =
     [(''user_id'', JStr ''u2''), (''banned_by'', JStr ''u1''), (''reason'', JStr ''spam''),
      (''ban_type'', JStr ''temporary''), (''ban_until'', JNull), (''is_active'', JBool True)]"

definition world_banned :: "row \<Rightarrow> world" where
  "world_banned b =
     world0\<lparr>auth_reply := (\<lambda>n c. (AuthData (Some (User ''u2'')), None)),
            rpc_object := (\<lambda>n c. Inr (Some b)),
            Date_parse := (\<lambda>s. if s = ''2024-04-10T12:00:00.000Z'' then Some 1712750400000
                                else None)\<rparr>"

text \<open>A backend holding three ban records and two profiles.\<close>

definition world_with_bans :: world where
  "world_with_bans =
     world0\<lparr>db := (\<lambda>t.
        if t = ''user_bans'' then
          [[(''user_id'', JStr ''u2''), (''reason'', JStr ''spam''), (''is_active'', JBool True)],
           [(''user_id'', JStr ''u3''), (''reason'', JStr ''abuse''), (''is_active'', JBool True)],
           [(''user_id'', JStr ''u2''), (''reason'', JStr ''old''), (''is_active'', JBool False)]]
        else if t = ''profiles'' then
          [[(''id'', JStr ''u2''), (''is_banned'', JBool True)],
           [(''id'', JStr ''u3''), (''is_banned'', JBool True)]]
        else [])\<rparr>"






section \<open>The helpers on examples\<close>

lemmas parseInt_eval =
  parseInt_def parseInt_string_def parse_digits_def digit_value_def is_space_def
  Number_toString_def show_int_def digits.simps

lemma parseInt_examples:
  "parseInt ef (JStr '' 14 days'') = Some 14"
  "parseInt ef (JStr ''-0x1F'') = Some (- 31)"
  "parseInt ef (JStr ''0'') = Some 0"
  "parseInt ef (JStr ''abc'') = None"
  "parseInt ef (JStr []) = None"
  "parseInt ef JNull = None"
  "parseInt ef (JBool True) = None"
  "parseInt ef (JNum 7) = Some 7"
  "parseInt ef (JNum 0) = Some 0"
  "parseInt ef (JNum (- 30)) = Some (- 30)"
  "parseInt ef (JNum 999999999999999934464) = Some 999999999999999934464"
  by (simp_all add: parseInt_eval)

text \<open>
  From \<open>10^21\<close> on the digits read are those of the exponent notation: \<open>parseInt(1e21)\<close>
  is 1, and a ban of \<open>1e21\<close> days is a ban of one day.
\<close>

lemma parseInt_large_number:
  "Number_toString (exponent_form world0) (10 ^ 21) = ''1e+21''"
  "to_string (exponent_form world0) (JNum (10 ^ 21)) = ''1e+21''"
  "parseInt (exponent_form world0) (JNum (10 ^ 21)) = Some 1"
  by (simp_all add: parseInt_eval world0_def)

lemma file_name_examples:
  "sanitize ''my photo (1).png'' = ''my_photo__1_.png''"
  "extension ''a.b.jpg'' = ''jpg''"
  "extension ''noext'' = ''noext''"
  by (simp_all add: sanitize_def extension_def)

section \<open>Numbers read back from their digits\<close>

text \<open>
  \<open>parseInt\<close> of an integer below \<open>10^21\<close> in magnitude is that integer: its string is
  its decimal digits, with a minus sign when negative, and the digits read back.
\<close>

lemma digits_chars: "set (digits m) \<subseteq> set ''0123456789''"
proof (induction m rule: digits.induct)
  case (1 n)
  have pick: "''0123456789'' ! (n mod 10) \<in> set ''0123456789''"
    by (rule nth_mem) simp
  show ?case
  proof (cases "n < 10")
    case True
    with pick show ?thesis by (subst digits.simps) simp
  next
    case False
    with 1 pick show ?thesis by (subst digits.simps) simp
  qed
qed

lemma digits_nonempty: "digits m \<noteq> []"
  by (subst digits.simps) simp

lemma digit_value_nth: "d < 10 \<Longrightarrow> digit_value (''0123456789'' ! d) = Some d"
proof -
  assume "d < 10"
  then have "d \<in> {0, 1, 2, 3, 4, 5, 6, 7, 8, 9}" by auto
  then show ?thesis by (auto simp add: digit_value_def)
qed

lemma digit_value_decimal:
  "c \<in> set ''0123456789'' \<Longrightarrow> \<exists>v. digit_value c = Some v \<and> v < 10"
  by (auto simp add: digit_value_def)

lemma digits_value:
  "foldl (\<lambda>a c. a * int 10 + (case digit_value c of None \<Rightarrow> 0 | Some v \<Rightarrow> int v)) 0 (digits m)
     = int m"
proof (induction m rule: digits.induct)
  case (1 n)
  show ?case
  proof (cases "n < 10")
    case True
    then show ?thesis by (subst digits.simps) (simp add: digit_value_nth)
  next
    case False
    have "int (n div 10) * 10 + int (n mod 10) = int n"
      by (simp add: zdiv_int zmod_int)
    with False 1 show ?thesis
      by (subst digits.simps) (simp add: digit_value_nth)
  qed
qed

lemma parse_digits_digits: "parse_digits 10 (digits m) = Some (int m)"
proof -
  have "\<forall>c \<in> set (digits m). case digit_value c of None \<Rightarrow> False | Some v \<Rightarrow> v < 10"
  proof
    fix c assume "c \<in> set (digits m)"
    with digits_chars [of m] have "c \<in> set ''0123456789''" by blast
    from digit_value_decimal [OF this]
    show "case digit_value c of None \<Rightarrow> False | Some v \<Rightarrow> v < 10" by auto
  qed
  then have tw:
    "takeWhile (\<lambda>c. case digit_value c of None \<Rightarrow> False | Some v \<Rightarrow> v < 10) (digits m)
       = digits m"
    by (simp only: takeWhile_eq_all_conv)
  show ?thesis
    unfolding parse_digits_def Let_def tw
    using digits_value [of m] by (simp add: digits_nonempty)
qed

lemma decimal_string_plain:
  assumes "set s \<subseteq> set ''0123456789''" and "s \<noteq> []"
  shows "parseInt_string s = parse_digits 10 s"
    and "parseInt_string (CHR ''-'' # s) = map_option uminus (parse_digits 10 s)"
proof -
  from assms obtain c cs where s: "s = c # cs" and c: "c \<in> set ''0123456789''"
    and cs: "set cs \<subseteq> set ''0123456789''"
    by (cases s) auto
  have plain: "\<not> is_space c" "c \<noteq> CHR ''-''" "c \<noteq> CHR ''+''"
    using c by (auto simp add: is_space_def)
  have no_hex: "take 2 s \<noteq> ''0x'' \<and> take 2 s \<noteq> ''0X''"
  proof (cases cs)
    case Nil
    with s show ?thesis by simp
  next
    case (Cons d ds)
    with cs have "d \<in> set ''0123456789''" by auto
    then have "d \<noteq> CHR ''x''" "d \<noteq> CHR ''X''" by auto
    with Cons s show ?thesis by simp
  qed
  have keep: "dropWhile is_space s = s" "take 1 s = [c]"
    using plain s by simp_all
  have one: "(\<lambda>n. (1::int) * n) = (\<lambda>n. n)" by simp
  show "parseInt_string s = parse_digits 10 s"
    unfolding parseInt_string_def Let_def keep
    using plain no_hex by (simp add: one option.map_ident)
  have minus: "\<not> is_space (CHR ''-'')"
    by (simp add: is_space_def)
  have neg: "(\<lambda>n. (- 1::int) * n) = uminus" by (simp add: fun_eq_iff)
  have keep': "dropWhile is_space (CHR ''-'' # s) = CHR ''-'' # s"
    "take 1 (CHR ''-'' # s) = ''-''" "drop 1 (CHR ''-'' # s) = s"
    using minus by simp_all
  show "parseInt_string (CHR ''-'' # s) = map_option uminus (parse_digits 10 s)"
    unfolding parseInt_string_def Let_def keep'
    using no_hex by (simp add: neg)
qed

lemma parseInt_string_show_int: "parseInt_string (show_int n) = Some n"
  using decimal_string_plain [OF digits_chars digits_nonempty, of "nat n"]
    decimal_string_plain [OF digits_chars digits_nonempty, of "nat (- n)"]
  by (simp add: show_int_def parse_digits_digits)

lemma parseInt_number: "\<bar>n\<bar> < 10 ^ 21 \<Longrightarrow> parseInt ef (JNum n) = Some n"
  by (simp add: parseInt_def Number_toString_def parseInt_string_show_int)

section \<open>Steps of \<open>banUser\<close>\<close>

text \<open>
  The runs of \<open>banUser\<close> on a configured page: the exception, the insert with an expiry
  and the insert without one. The reply to the insert is the answer to request number
  \<open>length (calls w) + 1\<close>, after \<open>auth.getUser\<close>.
\<close>

lemma truthy_default [simp]:
  "truthy (if d = JUndefined then JNull else d) = truthy d"
  by (cases d) simp_all

lemma truthy_default_same:
  "truthy d \<Longrightarrow> (if d = JUndefined then JNull else d) = d"
  by (cases d) simp_all

lemma banUser_thrown:
  assumes "supabase w" and "banType = JStr ''temporary''" and "truthy duration"
    and "setDate_plus (LocalTZA w) (Some (clock w (ticks w)))
           (parseInt (exponent_form w) duration) = None"
  shows "banUser userId reason banType duration w
           = (Inl RangeError, (sent Auth_getUser w)\<lparr>ticks := Suc (ticks w)\<rparr>)"
  using assms
  by (simp add: banUser_def getCurrentUser_def new_Date_def sent_def Let_def split_beta
      Date_toISOString_def truthy_default_same)

lemma banUser_insert_dated:
  assumes "supabase w" and "banType = JStr ''temporary''" and "truthy duration"
    and "setDate_plus (LocalTZA w) (Some (clock w (ticks w)))
           (parseInt (exponent_form w) duration) = Some t"
    and "ins = From_insert ''user_bans''
                 [(''user_id'', userId), (''banned_by'', opt_id (getUser_reply w (length (calls w)))),
                  (''reason'', reason), (''ban_type'', banType),
                  (''ban_until'', JStr (toISOString w t)), (''is_active'', JBool True)]"
    and "upd = From_update ''profiles'' [(''is_banned'', JBool True)] [(''id'', userId)]"
  shows "fst (banUser userId reason banType duration w)
           = Inr \<lparr>data = None, error = write_error w (Suc (length (calls w))) ins, url = None\<rparr>
         \<and> calls (snd (banUser userId reason banType duration w))
           = calls w @ Auth_getUser # ins
               # (if write_error w (Suc (length (calls w))) ins = None then [upd] else [])
         \<and> (write_error w (Suc (length (calls w))) ins \<noteq> None
           \<longrightarrow> db (snd (banUser userId reason banType duration w)) = db w)"
proof (cases "write_error w (Suc (length (calls w))) ins")
  case None
  with assms show ?thesis
    by (simp add: banUser_def getCurrentUser_def new_Date_def sent_def mutate_def Let_def
      split_beta Date_toISOString_def truthy_default_same)
next
  case (Some e)
  with assms show ?thesis
    by (simp add: banUser_def getCurrentUser_def new_Date_def sent_def mutate_def Let_def
      split_beta Date_toISOString_def truthy_default_same)
qed

lemma banUser_insert_null:
  assumes "supabase w" and "\<not> (banType = JStr ''temporary'' \<and> truthy duration)"
    and "ins = From_insert ''user_bans''
                 [(''user_id'', userId), (''banned_by'', opt_id (getUser_reply w (length (calls w)))),
                  (''reason'', reason), (''ban_type'', banType),
                  (''ban_until'', JNull), (''is_active'', JBool True)]"
    and "upd = From_update ''profiles'' [(''is_banned'', JBool True)] [(''id'', userId)]"
  shows "fst (banUser userId reason banType duration w)
           = Inr \<lparr>data = None, error = write_error w (Suc (length (calls w))) ins, url = None\<rparr>
         \<and> calls (snd (banUser userId reason banType duration w))
           = calls w @ Auth_getUser # ins
               # (if write_error w (Suc (length (calls w))) ins = None then [upd] else [])
         \<and> (write_error w (Suc (length (calls w))) ins \<noteq> None
           \<longrightarrow> db (snd (banUser userId reason banType duration w)) = db w)"
proof -
  from assms(2) have c: "(banType = JStr ''temporary'' \<and> truthy duration) = False"
    by simp
  show ?thesis
  proof (cases "write_error w (Suc (length (calls w))) ins")
    case None
    with assms(1,3,4) show ?thesis
      by (simp add: banUser_def getCurrentUser_def sent_def mutate_def Let_def split_beta c)
  next
    case (Some e)
    with assms(1,3,4) show ?thesis
      by (simp add: banUser_def getCurrentUser_def sent_def mutate_def Let_def split_beta c)
  qed
qed

lemma banUser_unconfigured:
  "\<not> supabase w \<Longrightarrow> banUser userId reason banType duration w = (Inr not_configured, w)"
  by (simp add: banUser_def)

text \<open>Two runs on the example worlds, evaluated.\<close>

lemma banUser_week_calls:
  "calls (snd (banUser (JStr ''u2'') (JStr ''spam'') (JStr ''temporary'') (JNum 7) world0))
     = [Auth_getUser,
        From_insert ''user_bans''
          [(''user_id'', JStr ''u2''), (''banned_by'', JStr ''u1''), (''reason'', JStr ''spam''),
           (''ban_type'', JStr ''temporary''),
           (''ban_until'', JStr ''2024-04-10T12:00:00.000Z''), (''is_active'', JBool True)],
        From_update ''profiles'' [(''is_banned'', JBool True)] [(''id'', JStr ''u2'')]]"
  by (simp add: banUser_def getCurrentUser_def new_Date_def sent_def mutate_def Let_def
      split_beta Date_toISOString_def setDate_plus_def TimeClip_def UTC_def LocalTime_def
      msPerDay_def world0_def opt_id_def parseInt_examples)

lemma banUser_week_refused_calls:
  "calls (snd (banUser (JStr ''u2'') (JStr ''spam'') (JStr ''temporary'') (JNum 7)
                world_insert_refused))
     = [Auth_getUser,
        From_insert ''user_bans''
          [(''user_id'', JStr ''u2''), (''banned_by'', JStr ''u1''), (''reason'', JStr ''spam''),
           (''ban_type'', JStr ''temporary''),
           (''ban_until'', JStr ''2024-04-10T12:00:00.000Z''), (''is_active'', JBool True)]]"
  by (simp add: banUser_def getCurrentUser_def new_Date_def sent_def mutate_def Let_def
      split_beta Date_toISOString_def setDate_plus_def TimeClip_def UTC_def LocalTime_def
      msPerDay_def world0_def opt_id_def world_insert_refused_def parseInt_examples)

section \<open>Steps of \<open>unbanUser\<close>\<close>

text \<open>
  The two updates of \<open>unbanUser\<close> applied to rows they have already been applied to
  change nothing: a deactivated record no longer passes the \<open>is_active = true\<close> filter,
  and clearing a cleared flag keeps the row.
\<close>

lemma deactivated_no_match:
  "\<not> matches [(''user_id'', u), (''is_active'', JBool True)]
       (assign [(''is_active'', JBool False)] r)"
  by (simp add: matches_def assign_def AList.update_conv')

lemma deactivate_step_idem:
  "(\<lambda>r. if matches [(''user_id'', u), (''is_active'', JBool True)] r
         then assign [(''is_active'', JBool False)] r else r)
     ((if matches [(''user_id'', u), (''is_active'', JBool True)] r
         then assign [(''is_active'', JBool False)] r else r))
   = (if matches [(''user_id'', u), (''is_active'', JBool True)] r
         then assign [(''is_active'', JBool False)] r else r)"
  using deactivated_no_match [of u r] by simp

lemma clear_flag_step_idem:
  "(\<lambda>r. if matches [(''id'', u)] r then assign [(''is_banned'', JBool False)] r else r)
     (if matches [(''id'', u)] r then assign [(''is_banned'', JBool False)] r else r)
   = (if matches [(''id'', u)] r then assign [(''is_banned'', JBool False)] r else r)"
  by (simp add: matches_def assign_def AList.update_conv')

lemma deactivate_fixed:
  assumes "c1 = From_update ''user_bans'' [(''is_active'', JBool False)]
                  [(''user_id'', u), (''is_active'', JBool True)]"
    and "c2 = From_update ''profiles'' [(''is_banned'', JBool False)] [(''id'', u)]"
  shows "effect c1 (effect c2 (effect c1 d)) = effect c2 (effect c1 d)"
    and "effect c2 (effect c2 d') = effect c2 d'"
  using deactivate_step_idem [of u] clear_flag_step_idem [of u]
  by (auto simp add: assms fun_eq_iff)

lemma unbanUser_run:
  assumes "supabase w"
    and "c1 = From_update ''user_bans'' [(''is_active'', JBool False)]
                  [(''user_id'', u), (''is_active'', JBool True)]"
    and "c2 = From_update ''profiles'' [(''is_banned'', JBool False)] [(''id'', u)]"
  shows "calls (snd (unbanUser u w)) = calls w @ [c1, c2]"
    and "supabase (snd (unbanUser u w))"
    and "write_error (snd (unbanUser u w)) = write_error w"
    and "db (snd (unbanUser u w))
           = (let d1 = (if write_error w (length (calls w)) c1 = None
                        then effect c1 (db w) else db w)
              in if write_error w (Suc (length (calls w))) c2 = None
                 then effect c2 d1 else d1)"
  using assms(1)
  by (simp_all add: assms(2,3) unbanUser_def mutate_def sent_def Let_def split_beta)

section \<open>Comparing dates\<close>


text \<open>A day count that is not a number: the exception leaves after \<open>auth.getUser\<close>.\<close>

lemma banUser_not_a_number:
  "banUser (JStr ''u2'') (JStr ''spam'') (JStr ''temporary'') (JStr ''soon'') world0
     = (Inl RangeError, world0\<lparr>calls := [Auth_getUser], ticks := 1\<rparr>)"
  by (simp add: banUser_def getCurrentUser_def new_Date_def sent_def Let_def split_beta
      Date_toISOString_def setDate_plus_def parseInt_eval world0_def)

text \<open>
  A day count of \<open>1e21\<close>: \<open>parseInt\<close> reads its string \<open>1e+21\<close> as 1, and the expiry is
  one day ahead.
\<close>

lemma banUser_huge_day_count:
  "calls (snd (banUser (JStr ''u2'') (JStr ''spam'') (JStr ''temporary'') (JNum (10 ^ 21))
                world0)) ! 1
     = From_insert ''user_bans''
         [(''user_id'', JStr ''u2''), (''banned_by'', JStr ''u1''), (''reason'', JStr ''spam''),
          (''ban_type'', JStr ''temporary''),
          (''ban_until'', JStr (toISOString world0 (1712145600000 + 1 * 86400000))),
          (''is_active'', JBool True)]"
proof -
  have one: "parseInt (exponent_form world0) (JNum (10 ^ 21)) = Some 1"
    by (rule parseInt_large_number)
  have cfg: "supabase world0" and big: "truthy (JNum (10 ^ 21))"
    and none: "calls world0 = []"
    and usr: "getUser_reply world0 0 = Some (User ''u1'')"
    by (simp_all add: world0_def)
  have d: "setDate_plus (LocalTZA world0) (Some (clock world0 (ticks world0)))
           (parseInt (exponent_form world0) (JNum (10 ^ 21))) = Some 1712232000000"
    unfolding one
    by (simp add: setDate_plus_def TimeClip_def UTC_def LocalTime_def msPerDay_def world0_def)
  from banUser_insert_dated [OF cfg refl big d refl refl, of "JStr ''u2''" "JStr ''spam''"]
  show ?thesis
    by (simp add: none usr opt_id_def)
qed

section \<open>Properties\<close>

text \<open>
  C1, as amended. When the credential check of \<open>signIn\<close> succeeds and the queried ban
  status is a record whose \<open>is_active\<close> is truthy, \<open>signIn\<close> sends the backend sign-out
  and returns an error whose message is "Your account has been suspended. Reason: "
  followed by the ban reason, and then by " Until: " and the localised date of
  \<open>ban_until\<close> when the status carries an expiry (\<open>ban_until\<close> truthy), or by
  " (Permanent)" when it carries none. The ban type is not read.
\<close>

theorem signIn_active_ban_revokes:
  assumes "supabase w"
    and "auth_reply w (length (calls w)) (Auth_signInWithPassword email password) = (d, None)"
    and "user d = Some usr"
    and "rpc_object w (Suc (length (calls w))) (Rpc ''get_user_ban_status'' []) = Inr (Some b)"
    and "truthy (get_prop b ''is_active'')"
  shows "calls (snd (signIn email password w))
           = calls w @ [Auth_signInWithPassword email password,
               Rpc ''get_user_ban_status'' [], Auth_signOut] \<and>
         fst (signIn email password w)
           = \<lparr>data = None,
              error = Some (Err (''Your account has been suspended. Reason: ''
                @ to_string (exponent_form w) (get_prop b ''reason'')
                @ (if truthy (get_prop b ''ban_until'')
                   then '' Until: '' @ Date_toLocaleDateString (toLocaleDateString w)
                          (Date_of (Date_parse w) (get_prop b ''ban_until''))
                   else '' (Permanent)''))),
              url = None\<rparr>"
  using assms
  by (simp add: signIn_def checkUserBan_def query_def
      mutate_def sent_def Let_def split_beta)

theorem signIn_active_ban_revokes_witness:
  "supabase (world_banned temporary_ban) \<and>
   auth_reply (world_banned temporary_ban) (length (calls (world_banned temporary_ban)))
     (Auth_signInWithPassword ''bob@example.org'' ''pw'')
     = (AuthData (Some (User ''u2'')), None) \<and>
   truthy (get_prop temporary_ban ''is_active'') \<and>
   calls (snd (signIn ''bob@example.org'' ''pw'' (world_banned temporary_ban)))
     = [Auth_signInWithPassword ''bob@example.org'' ''pw'',
        Rpc ''get_user_ban_status'' [], Auth_signOut] \<and>
   fst (signIn ''bob@example.org'' ''pw'' (world_banned temporary_ban))
     = \<lparr>data = None,
        error = Some (Err ''Your account has been suspended. Reason: spam Until: 4/10/2024''),
        url = None\<rparr>"
  using signIn_active_ban_revokes [of "world_banned temporary_ban" "''bob@example.org''" "''pw''"
      "AuthData (Some (User ''u2''))" "User ''u2''" temporary_ban]
  by (simp add: world_banned_def world0_def temporary_ban_def get_prop_def
      Date_toLocaleDateString_def)

text \<open>
  C1 as stated fails: the claim promises the expiry date for a temporary ban and
  "(Permanent)" for a ban that is not temporary. A ban of type \<open>'temporary'\<close> with no
  expiry is what \<open>banUser\<close> records when it is called with no day count; signing in
  under it gives the "(Permanent)" message.
\<close>

theorem signIn_temporary_ban_permanent_counterexample:
  "db (snd (banUser (JStr ''u2'') (JStr ''spam'') (JStr ''temporary'') JUndefined world0))
      ''user_bans'' = [temporary_ban_without_expiry] \<and>
   get_prop temporary_ban_without_expiry ''ban_type'' = JStr ''temporary'' \<and>
   truthy (get_prop temporary_ban_without_expiry ''is_active'') \<and>
   rpc_object (world_banned temporary_ban_without_expiry) 1 (Rpc ''get_user_ban_status'' [])
     = Inr (Some temporary_ban_without_expiry) \<and>
   fst (signIn ''bob@example.org'' ''pw'' (world_banned temporary_ban_without_expiry))
     = \<lparr>data = None,
        error = Some (Err ''Your account has been suspended. Reason: spam (Permanent)''),
        url = None\<rparr>"
proof -
  have "db (snd (banUser (JStr ''u2'') (JStr ''spam'') (JStr ''temporary'') JUndefined world0))
          ''user_bans'' = [temporary_ban_without_expiry]"
    by (simp add: banUser_def getCurrentUser_def sent_def mutate_def Let_def split_beta
        world0_def opt_id_def temporary_ban_without_expiry_def)
  moreover
  have "fst (signIn ''bob@example.org'' ''pw'' (world_banned temporary_ban_without_expiry))
     = \<lparr>data = None,
        error = Some (Err ''Your account has been suspended. Reason: spam (Permanent)''),
        url = None\<rparr>"
    by (simp add: world_banned_def world0_def temporary_ban_without_expiry_def get_prop_def
        signIn_def checkUserBan_def query_def mutate_def sent_def Let_def split_beta)
  ultimately show ?thesis
    by (simp add: world_banned_def temporary_ban_without_expiry_def get_prop_def)
qed

text \<open>
  C2. For every run of \<open>banUser\<close>, with \<open>new\<close> the requests the run sends: the update
  that sets \<open>is_banned\<close> to true on the profile is among them if and only if an insert
  into \<open>user_bans\<close> is among them and the backend answered it with no error (the insert
  is the run's second request, after \<open>auth.getUser\<close>). If the insert is answered with an
  error, no profile update is sent, the tables are as before, and the result is
  \<open>{error}\<close> with the insert's error. The runs that send no insert, with the handle unset
  or ending in the \<open>RangeError\<close>, send no update either.
\<close>

theorem banUser_flag_iff_insert_accepted:
  assumes run: "banUser userId reason banType duration w = (res, w')"
    and new: "new = drop (length (calls w)) (calls w')"
    and upd: "upd = From_update ''profiles'' [(''is_banned'', JBool True)] [(''id'', userId)]"
  shows "(upd \<in> set new \<longleftrightarrow>
            (\<exists>r. From_insert ''user_bans'' r \<in> set new \<and>
                 write_error w (Suc (length (calls w))) (From_insert ''user_bans'' r) = None)) \<and>
         (\<forall>r e. From_insert ''user_bans'' r \<in> set new \<and>
                 write_error w (Suc (length (calls w))) (From_insert ''user_bans'' r) = Some e
            \<longrightarrow> upd \<notin> set new \<and> db w' = db w \<and>
                res = Inr \<lparr>data = None, error = Some e, url = None\<rparr>)"
proof -
  have res: "res = fst (banUser userId reason banType duration w)"
    and w': "w' = snd (banUser userId reason banType duration w)"
    using run by simp_all
  consider (off) "\<not> supabase w"
    | (thrown) "supabase w" "banType = JStr ''temporary''" "truthy duration"
        "setDate_plus (LocalTZA w) (Some (clock w (ticks w)))
           (parseInt (exponent_form w) duration) = None"
    | (dated) t where "supabase w" "banType = JStr ''temporary''" "truthy duration"
        "setDate_plus (LocalTZA w) (Some (clock w (ticks w)))
           (parseInt (exponent_form w) duration) = Some t"
    | (null) "supabase w" "\<not> (banType = JStr ''temporary'' \<and> truthy duration)"
    by (cases "setDate_plus (LocalTZA w) (Some (clock w (ticks w)))
           (parseInt (exponent_form w) duration)") auto
  then show ?thesis
  proof cases
    case off
    then show ?thesis
      using new w' by (simp add: banUser_unconfigured)
  next
    case thrown
    then show ?thesis
      using new w' upd by (simp add: banUser_thrown sent_def)
  next
    case dated
    note step = banUser_insert_dated [OF dated refl refl, of userId reason]
    show ?thesis
    proof (cases "write_error w (Suc (length (calls w))) (From_insert ''user_bans''
                 [(''user_id'', userId), (''banned_by'', opt_id (getUser_reply w (length (calls w)))),
                  (''reason'', reason), (''ban_type'', banType),
                  (''ban_until'', JStr (toISOString w t)), (''is_active'', JBool True)])")
      case None
      with step new w' res upd show ?thesis by auto
    next
      case (Some e)
      with step new w' res upd show ?thesis by auto
    qed
  next
    case null
    note step = banUser_insert_null [OF null refl refl, of userId reason]
    show ?thesis
    proof (cases "write_error w (Suc (length (calls w))) (From_insert ''user_bans''
                 [(''user_id'', userId), (''banned_by'', opt_id (getUser_reply w (length (calls w)))),
                  (''reason'', reason), (''ban_type'', banType),
                  (''ban_until'', JNull), (''is_active'', JBool True)])")
      case None
      with step new w' res upd show ?thesis by auto
    next
      case (Some e)
      with step new w' res upd show ?thesis by auto
    qed
  qed
qed

theorem banUser_flag_iff_insert_accepted_witness:
  "From_update ''profiles'' [(''is_banned'', JBool True)] [(''id'', JStr ''u2'')]
     \<in> set (calls (snd (banUser (JStr ''u2'') (JStr ''spam'') (JStr ''temporary'') (JNum 7)
                           world0))) \<and>
   From_update ''profiles'' [(''is_banned'', JBool True)] [(''id'', JStr ''u2'')]
     \<notin> set (calls (snd (banUser (JStr ''u2'') (JStr ''spam'') (JStr ''temporary'') (JNum 7)
                           world_insert_refused))) \<and>
   db (snd (banUser (JStr ''u2'') (JStr ''spam'') (JStr ''temporary'') (JNum 7)
              world_insert_refused)) = db world_insert_refused \<and>
   fst (banUser (JStr ''u2'') (JStr ''spam'') (JStr ''temporary'') (JNum 7) world_insert_refused)
     = Inr \<lparr>data = None, error = Some (Err ''permission denied''), url = None\<rparr>"
proof -
  let ?ban = "banUser (JStr ''u2'') (JStr ''spam'') (JStr ''temporary'') (JNum 7)"
  let ?ins = "From_insert ''user_bans''
          [(''user_id'', JStr ''u2''), (''banned_by'', JStr ''u1''), (''reason'', JStr ''spam''),
           (''ban_type'', JStr ''temporary''),
           (''ban_until'', JStr ''2024-04-10T12:00:00.000Z''), (''is_active'', JBool True)]"
  have c0: "calls world0 = []" and c1: "calls world_insert_refused = []"
    by (simp_all add: world0_def world_insert_refused_def)
  have a: "?ins \<in> set (calls (snd (?ban world0)))"
    by (simp add: banUser_week_calls)
  have b: "?ins \<in> set (calls (snd (?ban world_insert_refused)))"
    by (simp add: banUser_week_refused_calls)
  have ok: "write_error world0 (Suc 0) ?ins = None"
    by (simp add: world0_def)
  have no: "write_error world_insert_refused (Suc 0) ?ins = Some (Err ''permission denied'')"
    by (simp add: world_insert_refused_def world0_def)
  note T0 = banUser_flag_iff_insert_accepted [of "JStr ''u2''" "JStr ''spam''"
      "JStr ''temporary''" "JNum 7" world0, OF prod.collapse [symmetric] refl refl]
  note T1 = banUser_flag_iff_insert_accepted [of "JStr ''u2''" "JStr ''spam''"
      "JStr ''temporary''" "JNum 7" world_insert_refused, OF prod.collapse [symmetric] refl refl]
  have "From_update ''profiles'' [(''is_banned'', JBool True)] [(''id'', JStr ''u2'')]
     \<in> set (calls (snd (?ban world0)))"
    using T0 a ok by (simp only: c0 list.size drop_0) blast
  moreover
  have "From_update ''profiles'' [(''is_banned'', JBool True)] [(''id'', JStr ''u2'')]
     \<notin> set (calls (snd (?ban world_insert_refused))) \<and>
   db (snd (?ban world_insert_refused)) = db world_insert_refused \<and>
   fst (?ban world_insert_refused)
     = Inr \<lparr>data = None, error = Some (Err ''permission denied''), url = None\<rparr>"
    using T1 b no by (simp only: c1 list.size drop_0) blast
  ultimately show ?thesis by blast
qed

text \<open>
  C3. With the client handle unset, each of the fifteen mutating operations returns the
  error object whose message is "Supabase not configured" and leaves the world as it
  was: in particular the log of backend requests is unchanged, so no backend call is
  made.
\<close>

theorem unconfigured_mutations_no_call:
  "\<not> supabase w \<Longrightarrow>
    signUp email password fullName w
       = (\<lparr>data = None, error = Some (Err ''Supabase not configured''), url = None\<rparr>, w) \<and>
    signIn email password w
       = (\<lparr>data = None, error = Some (Err ''Supabase not configured''), url = None\<rparr>, w) \<and>
    signOut w
       = (\<lparr>data = None, error = Some (Err ''Supabase not configured''), url = None\<rparr>, w) \<and>
    updateProfile updates w
       = (\<lparr>data = None, error = Some (Err ''Supabase not configured''), url = None\<rparr>, w) \<and>
    addCategory name slug icon description w
       = (\<lparr>data = None, error = Some (Err ''Supabase not configured''), url = None\<rparr>, w) \<and>
    updateCategory ident updates w
       = (\<lparr>data = None, error = Some (Err ''Supabase not configured''), url = None\<rparr>, w) \<and>
    deleteCategory ident w
       = (\<lparr>data = None, error = Some (Err ''Supabase not configured''), url = None\<rparr>, w) \<and>
    addMaterial title description imageUrl telegramLink category w
       = (\<lparr>data = None, error = Some (Err ''Supabase not configured''), url = None\<rparr>, w) \<and>
    updateMaterial ident updates w
       = (\<lparr>data = None, error = Some (Err ''Supabase not configured''), url = None\<rparr>, w) \<and>
    deleteMaterial ident w
       = (\<lparr>data = None, error = Some (Err ''Supabase not configured''), url = None\<rparr>, w) \<and>
    uploadImage f bucket w
       = (\<lparr>data = None, error = Some (Err ''Supabase not configured''), url = None\<rparr>, w) \<and>
    uploadAvatar f w
       = (\<lparr>data = None, error = Some (Err ''Supabase not configured''), url = None\<rparr>, w) \<and>
    updateUserRole userId role w
       = (\<lparr>data = None, error = Some (Err ''Supabase not configured''), url = None\<rparr>, w) \<and>
    banUser userId reason banType duration w
       = (Inr \<lparr>data = None, error = Some (Err ''Supabase not configured''), url = None\<rparr>, w) \<and>
    unbanUser userId w
       = (\<lparr>data = None, error = Some (Err ''Supabase not configured''), url = None\<rparr>, w)"
  by (simp add: not_configured_def signUp_def signIn_def signOut_def updateProfile_def
      addCategory_def updateCategory_def deleteCategory_def addMaterial_def updateMaterial_def
      deleteMaterial_def uploadImage_def uploadAvatar_def updateUserRole_def banUser_def
      unbanUser_def)

theorem unconfigured_mutations_no_call_witness:
  "\<not> supabase world_off \<and>
    signUp ''ann@example.org'' ''pw'' ''Ann'' world_off
       = (\<lparr>data = None, error = Some (Err ''Supabase not configured''), url = None\<rparr>, world_off) \<and>
    signIn ''ann@example.org'' ''pw'' world_off
       = (\<lparr>data = None, error = Some (Err ''Supabase not configured''), url = None\<rparr>, world_off) \<and>
    signOut world_off
       = (\<lparr>data = None, error = Some (Err ''Supabase not configured''), url = None\<rparr>, world_off) \<and>
    updateProfile [(''full_name'', JStr ''Ann'')] world_off
       = (\<lparr>data = None, error = Some (Err ''Supabase not configured''), url = None\<rparr>, world_off) \<and>
    addCategory (JStr ''Maths'') (JStr ''maths'') JNull JNull world_off
       = (\<lparr>data = None, error = Some (Err ''Supabase not configured''), url = None\<rparr>, world_off) \<and>
    updateCategory (JNum 3) [(''full_name'', JStr ''Ann'')] world_off
       = (\<lparr>data = None, error = Some (Err ''Supabase not configured''), url = None\<rparr>, world_off) \<and>
    deleteCategory (JNum 3) world_off
       = (\<lparr>data = None, error = Some (Err ''Supabase not configured''), url = None\<rparr>, world_off) \<and>
    addMaterial (JStr ''Notes'') JNull JNull JNull (JStr ''maths'') world_off
       = (\<lparr>data = None, error = Some (Err ''Supabase not configured''), url = None\<rparr>, world_off) \<and>
    updateMaterial (JNum 3) [(''full_name'', JStr ''Ann'')] world_off
       = (\<lparr>data = None, error = Some (Err ''Supabase not configured''), url = None\<rparr>, world_off) \<and>
    deleteMaterial (JNum 3) world_off
       = (\<lparr>data = None, error = Some (Err ''Supabase not configured''), url = None\<rparr>, world_off) \<and>
    uploadImage (File ''a b.png'') None world_off
       = (\<lparr>data = None, error = Some (Err ''Supabase not configured''), url = None\<rparr>, world_off) \<and>
    uploadAvatar (File ''a b.png'') world_off
       = (\<lparr>data = None, error = Some (Err ''Supabase not configured''), url = None\<rparr>, world_off) \<and>
    updateUserRole (JStr ''u2'') (JStr ''admin'') world_off
       = (\<lparr>data = None, error = Some (Err ''Supabase not configured''), url = None\<rparr>, world_off) \<and>
    banUser (JStr ''u2'') (JStr ''spam'') (JStr ''temporary'') (JNum 7) world_off
       = (Inr \<lparr>data = None, error = Some (Err ''Supabase not configured''), url = None\<rparr>, world_off) \<and>
    unbanUser (JStr ''u2'') world_off
       = (\<lparr>data = None, error = Some (Err ''Supabase not configured''), url = None\<rparr>, world_off)"
proof -
  have off: "\<not> supabase world_off"
    by (simp add: world_off_def world0_def)
  show ?thesis
    by (rule conjI [OF off], rule unconfigured_mutations_no_call [OF off])
qed




text \<open>
  C5. For every user identity and every state of the tables: when the backend carries
  out the two updates of a first \<open>unbanUser\<close>, a second \<open>unbanUser\<close> right after it
  leaves the tables exactly as the first left them, whatever the backend answers to the
  second. After the first run no record of \<open>user_bans\<close> passes the filter
  \<open>user_id = userId, is_active = true\<close>, so the second deactivates zero records; every
  profile of that identity has \<open>is_banned\<close> false; and the second run still sends both
  updates, the profile one included. With the handle unset both runs change nothing.
\<close>

theorem unbanUser_twice_same_state:
  assumes c1: "c1 = From_update ''user_bans'' [(''is_active'', JBool False)]
                  [(''user_id'', userId), (''is_active'', JBool True)]"
    and c2: "c2 = From_update ''profiles'' [(''is_banned'', JBool False)] [(''id'', userId)]"
    and accepted: "supabase w \<longrightarrow> write_error w (length (calls w)) c1 = None \<and>
                     write_error w (Suc (length (calls w))) c2 = None"
    and w1: "w1 = snd (unbanUser userId w)"
    and w2: "w2 = snd (unbanUser userId w1)"
  shows "db w2 = db w1 \<and>
         (supabase w \<longrightarrow>
            filter (matches [(''user_id'', userId), (''is_active'', JBool True)])
              (db w1 ''user_bans'') = [] \<and>
            list_all (\<lambda>r. matches [(''id'', userId)] r
                          \<longrightarrow> get_prop r ''is_banned'' = JBool False) (db w1 ''profiles'') \<and>
            calls w2 = calls w1 @ [c1, c2])"
proof (cases "supabase w")
  case False
  then show ?thesis
    by (simp add: w1 w2 unbanUser_def)
next
  case True
  note r1 = unbanUser_run [OF True c1 c2]
  from True accepted have d1: "db w1 = effect c2 (effect c1 (db w))"
    by (simp add: w1 r1)
  have cfg: "supabase w1"
    by (simp add: w1 r1)
  note r2 = unbanUser_run [OF cfg c1 c2]
  note fixed = deactivate_fixed [OF c1 c2]
  have same: "db w2 = db w1"
    by (simp add: w2 r2 d1 fixed Let_def)
  have none: "filter (matches [(''user_id'', userId), (''is_active'', JBool True)])
              (db w1 ''user_bans'') = []"
    using deactivated_no_match [of userId]
    by (auto simp add: d1 c1 c2 filter_empty_conv)
  have flag: "list_all (\<lambda>r. matches [(''id'', userId)] r
                \<longrightarrow> get_prop r ''is_banned'' = JBool False) (db w1 ''profiles'')"
    by (auto simp add: d1 c1 c2 list_all_iff get_prop_def assign_def matches_def
        AList.update_conv')
  have again: "calls w2 = calls w1 @ [c1, c2]"
    by (simp add: w2 r2)
  from same none flag again show ?thesis by simp
qed

theorem unbanUser_twice_same_state_witness:
  "supabase world_with_bans \<and>
   write_error world_with_bans (length (calls world_with_bans))
     (From_update ''user_bans'' [(''is_active'', JBool False)]
        [(''user_id'', JStr ''u2''), (''is_active'', JBool True)]) = None \<and>
   write_error world_with_bans (Suc (length (calls world_with_bans)))
     (From_update ''profiles'' [(''is_banned'', JBool False)] [(''id'', JStr ''u2'')]) = None \<and>
   db (snd (unbanUser (JStr ''u2'') world_with_bans)) ''user_bans''
     = [[(''user_id'', JStr ''u2''), (''reason'', JStr ''spam''), (''is_active'', JBool False)],
        [(''user_id'', JStr ''u3''), (''reason'', JStr ''abuse''), (''is_active'', JBool True)],
        [(''user_id'', JStr ''u2''), (''reason'', JStr ''old''), (''is_active'', JBool False)]] \<and>
   db (snd (unbanUser (JStr ''u2'') world_with_bans)) ''profiles''
     = [[(''id'', JStr ''u2''), (''is_banned'', JBool False)],
        [(''id'', JStr ''u3''), (''is_banned'', JBool True)]] \<and>
   db (snd (unbanUser (JStr ''u2'') (snd (unbanUser (JStr ''u2'') world_with_bans))))
     = db (snd (unbanUser (JStr ''u2'') world_with_bans)) \<and>
   filter (matches [(''user_id'', JStr ''u2''), (''is_active'', JBool True)])
     (db (snd (unbanUser (JStr ''u2'') world_with_bans)) ''user_bans'') = [] \<and>
   calls (snd (unbanUser (JStr ''u2'') (snd (unbanUser (JStr ''u2'') world_with_bans))))
     = calls (snd (unbanUser (JStr ''u2'') world_with_bans))
       @ [From_update ''user_bans'' [(''is_active'', JBool False)]
            [(''user_id'', JStr ''u2''), (''is_active'', JBool True)],
          From_update ''profiles'' [(''is_banned'', JBool False)] [(''id'', JStr ''u2'')]]"
proof -
  have cfg: "supabase world_with_bans"
    and ok: "write_error world_with_bans (length (calls world_with_bans))
     (From_update ''user_bans'' [(''is_active'', JBool False)]
        [(''user_id'', JStr ''u2''), (''is_active'', JBool True)]) = None"
     "write_error world_with_bans (Suc (length (calls world_with_bans)))
     (From_update ''profiles'' [(''is_banned'', JBool False)] [(''id'', JStr ''u2'')]) = None"
    by (simp_all add: world_with_bans_def world0_def)
  have bans: "db (snd (unbanUser (JStr ''u2'') world_with_bans)) ''user_bans''
     = [[(''user_id'', JStr ''u2''), (''reason'', JStr ''spam''), (''is_active'', JBool False)],
        [(''user_id'', JStr ''u3''), (''reason'', JStr ''abuse''), (''is_active'', JBool True)],
        [(''user_id'', JStr ''u2''), (''reason'', JStr ''old''), (''is_active'', JBool False)]]"
    and profiles: "db (snd (unbanUser (JStr ''u2'') world_with_bans)) ''profiles''
     = [[(''id'', JStr ''u2''), (''is_banned'', JBool False)],
        [(''id'', JStr ''u3''), (''is_banned'', JBool True)]]"
    by (simp_all add: unbanUser_def mutate_def sent_def Let_def split_beta world_with_bans_def
        world0_def matches_def assign_def)
  from unbanUser_twice_same_state [OF refl refl _ refl refl, of world_with_bans "JStr ''u2''"]
    cfg ok bans profiles
  show ?thesis by simp
qed




text \<open>
  C7. When the credential check of \<open>signIn\<close> succeeds (no error, a user in the data) and
  the ban status is not an active ban (the query fails, returns \<open>null\<close>, or returns a
  record whose \<open>is_active\<close> is falsy), the requests sent are the sign-in, the ban query
  and exactly one insert into \<open>site_visits\<close>; the result is the sign-in's data with no
  error, and it is the same whatever the backend answers to writes (\<open>refuse\<close> is any
  other pattern of write errors).
\<close>

theorem signIn_tracks_one_visit:
  assumes "supabase w"
    and "auth_reply w (length (calls w)) (Auth_signInWithPassword email password) = (d, None)"
    and "user d = Some usr"
    and "case rpc_object w (Suc (length (calls w))) (Rpc ''get_user_ban_status'' []) of
           Inr (Some b) \<Rightarrow> \<not> truthy (get_prop b ''is_active'') | _ \<Rightarrow> True"
  shows "calls (snd (signIn email password w))
           = calls w @ [Auth_signInWithPassword email password,
               Rpc ''get_user_ban_status'' [],
               From_insert ''site_visits''
                 [(''user_id'', JStr (id_of usr)),
                  (''page_path'', JStr (pathname w)),
                  (''visited_at'', JStr (toISOString w (clock w (ticks w))))]] \<and>
         fst (signIn email password w) = \<lparr>data = Some d, error = None, url = None\<rparr> \<and>
         fst (signIn email password (w\<lparr>write_error := refuse\<rparr>))
           = fst (signIn email password w)"
  using assms
  by (auto simp add: signIn_def checkUserBan_def trackVisit_def query_def
      mutate_def sent_def new_Date_def Let_def split_beta split: option.splits sum.splits)

text \<open>A run in which the backend refuses the visit insert.\<close>

theorem signIn_tracks_one_visit_witness:
  "supabase world_visit_refused \<and>
   auth_reply world_visit_refused (length (calls world_visit_refused))
     (Auth_signInWithPassword ''ann@example.org'' ''pw'')
     = (AuthData (Some (User ''u1'')), None) \<and>
   write_error world_visit_refused 2
     (From_insert ''site_visits''
        [(''user_id'', JStr ''u1''), (''page_path'', JStr ''/''),
         (''visited_at'', JStr ''2024-04-03T12:00:00.000Z'')])
     = Some (Err ''permission denied'') \<and>
   calls (snd (signIn ''ann@example.org'' ''pw'' world_visit_refused))
     = [Auth_signInWithPassword ''ann@example.org'' ''pw'',
        Rpc ''get_user_ban_status'' [],
        From_insert ''site_visits''
          [(''user_id'', JStr ''u1''), (''page_path'', JStr ''/''),
           (''visited_at'', JStr ''2024-04-03T12:00:00.000Z'')]] \<and>
   fst (signIn ''ann@example.org'' ''pw'' world_visit_refused)
     = \<lparr>data = Some (AuthData (Some (User ''u1''))), error = None, url = None\<rparr> \<and>
   fst (signIn ''ann@example.org'' ''pw'' world0)
     = \<lparr>data = Some (AuthData (Some (User ''u1''))), error = None, url = None\<rparr>"
  using signIn_tracks_one_visit [of world_visit_refused "''ann@example.org''" "''pw''"
      "AuthData (Some (User ''u1''))" "User ''u1''" "\<lambda>n c. None"]
    signIn_tracks_one_visit [of world0 "''ann@example.org''" "''pw''"
      "AuthData (Some (User ''u1''))" "User ''u1''" "\<lambda>n c. None"]
  by (simp add: world_visit_refused_def world0_def)

text \<open>
  C8. Each read-list operation, \<open>getCategories\<close>, \<open>getMaterials\<close>, \<open>getAllMaterials\<close>,
  \<open>getAllUsers\<close> and \<open>getUserBanHistory\<close>, returns a list of rows, by its type never an
  error object: the rows of the reply when the backend answers with data, and the empty
  list when the handle is unset, when the reply is an error and when its data is
  \<open>null\<close>. (A reply carries an error or data, never both.)
\<close>

theorem read_lists_degrade_to_empty:
  "fst (getCategories w) =
     (if supabase w
      then (case select_reply w (length (calls w))
                  (From_select ''categories'' [] (Some (''name'', True))) of
              Inl e \<Rightarrow> [] | Inr None \<Rightarrow> [] | Inr (Some rs) \<Rightarrow> rs)
      else []) \<and>
   fst (getMaterials w) =
     (if supabase w
      then (case select_reply w (length (calls w))
                  (From_select ''materials'' [(''status'', JStr ''published'')]
                     (Some (''created_at'', False))) of
              Inl e \<Rightarrow> [] | Inr None \<Rightarrow> [] | Inr (Some rs) \<Rightarrow> rs)
      else []) \<and>
   fst (getAllMaterials w) =
     (if supabase w
      then (case select_reply w (length (calls w))
                  (From_select ''materials'' [] (Some (''created_at'', False))) of
              Inl e \<Rightarrow> [] | Inr None \<Rightarrow> [] | Inr (Some rs) \<Rightarrow> rs)
      else []) \<and>
   fst (getAllUsers w) =
     (if supabase w
      then (case rpc_list w (length (calls w)) (Rpc ''get_all_users_admin'' []) of
              Inl e \<Rightarrow> [] | Inr None \<Rightarrow> [] | Inr (Some rs) \<Rightarrow> rs)
      else []) \<and>
   fst (getUserBanHistory userId w) =
     (if supabase w
      then (case select_reply w (length (calls w))
                  (From_select ''user_bans'' [(''user_id'', userId)]
                     (Some (''created_at'', False))) of
              Inl e \<Rightarrow> [] | Inr None \<Rightarrow> [] | Inr (Some rs) \<Rightarrow> rs)
      else [])"
  by (simp add: getCategories_def getMaterials_def getAllMaterials_def getAllUsers_def
      getUserBanHistory_def query_def or_empty_def split: sum.splits option.splits)

text \<open>
  C9. \<open>addMaterial\<close> checks no session. On a configured page with no active session it
  sends \<open>auth.getUser\<close> and then the insert into \<open>materials\<close>, with \<open>created_by\<close>
  \<open>undefined\<close> and \<open>status\<close> \<open>'published'\<close>, and returns the backend's reply to the
  insert: its error is the backend's, never the local "Not authenticated". In the same
  world \<open>updateProfile\<close> and \<open>uploadAvatar\<close> return the "Not authenticated" error after
  \<open>auth.getUser\<close> alone.
\<close>

theorem addMaterial_inserts_without_session:
  assumes "supabase w" and "getUser_reply w (length (calls w)) = None"
  shows "calls (snd (addMaterial title description imageUrl telegramLink category w))
           = calls w @ [Auth_getUser,
               From_insert ''materials''
                 [(''title'', title), (''description'', description), (''image_url'', imageUrl),
                  (''telegram_link'', telegramLink), (''category'', category),
                  (''created_by'', JUndefined), (''status'', JStr ''published'')]] \<and>
         fst (addMaterial title description imageUrl telegramLink category w)
           = \<lparr>data = None,
              error = write_error w (Suc (length (calls w)))
                (From_insert ''materials''
                 [(''title'', title), (''description'', description), (''image_url'', imageUrl),
                  (''telegram_link'', telegramLink), (''category'', category),
                  (''created_by'', JUndefined), (''status'', JStr ''published'')]),
              url = None\<rparr> \<and>
         updateProfile updates w
           = (\<lparr>data = None, error = Some (Err ''Not authenticated''), url = None\<rparr>,
              sent Auth_getUser w) \<and>
         uploadAvatar f w
           = (\<lparr>data = None, error = Some (Err ''Not authenticated''), url = None\<rparr>,
              sent Auth_getUser w)"
  using assms
  by (simp add: addMaterial_def updateProfile_def uploadAvatar_def getCurrentUser_def
      mutate_def sent_def opt_id_def not_authenticated_def Let_def split_beta)

theorem addMaterial_inserts_without_session_witness:
  "supabase world_no_session \<and>
   getUser_reply world_no_session (length (calls world_no_session)) = None \<and>
   calls (snd (addMaterial (JStr ''Notes'') JNull JNull JNull (JStr ''maths'') world_no_session))
     = [Auth_getUser,
        From_insert ''materials''
          [(''title'', JStr ''Notes''), (''description'', JNull), (''image_url'', JNull),
           (''telegram_link'', JNull), (''category'', JStr ''maths''),
           (''created_by'', JUndefined), (''status'', JStr ''published'')]] \<and>
   fst (addMaterial (JStr ''Notes'') JNull JNull JNull (JStr ''maths'') world_no_session)
     = \<lparr>data = None, error = None, url = None\<rparr> \<and>
   fst (updateProfile [(''full_name'', JStr ''Ann'')] world_no_session)
     = \<lparr>data = None, error = Some (Err ''Not authenticated''), url = None\<rparr> \<and>
   fst (uploadAvatar (File ''me.jpg'') world_no_session)
     = \<lparr>data = None, error = Some (Err ''Not authenticated''), url = None\<rparr>"
  using addMaterial_inserts_without_session [of world_no_session "JStr ''Notes''" JNull JNull
      JNull "JStr ''maths''" "[(''full_name'', JStr ''Ann'')]" "File ''me.jpg''"]
  by (simp add: world_no_session_def world0_def)

text \<open>
  C10. When \<open>uploadAvatar\<close> runs with a session and the storage upload is accepted, it
  sends \<open>auth.getUser\<close> and the upload, then calls \<open>updateProfile\<close> with the public URL
  of the uploaded file: \<open>updateProfile\<close> sends \<open>auth.getUser\<close> again and, if a session is
  still there, the update of \<open>avatar_url\<close> on the profile. The run ends in the world that
  \<open>updateProfile\<close> leaves, so the profile write is awaited; and the result is
  \<open>{url: publicUrl}\<close> whatever \<open>updateProfile\<close> returned, be it the backend's error for
  the update or "Not authenticated": that result is dropped.
\<close>

theorem uploadAvatar_url_despite_profile_update:
  assumes cfg: "supabase w"
    and usr: "getUser_reply w (length (calls w)) = Some usr"
    and fileName: "fileName = id_of usr @ ''-''
                      @ Number_toString (exponent_form w) (clock w (ticks w)) @ ''.''
                      @ extension (file_name f)"
    and accepted: "write_error w (Suc (length (calls w)))
                     (Storage_upload ''profile-avatars'' fileName True) = None"
    and publicUrl: "publicUrl = getPublicUrl w ''profile-avatars'' fileName"
    and w3: "w3 = w\<lparr>calls := calls w @ [Auth_getUser,
                                  Storage_upload ''profile-avatars'' fileName True],
                     ticks := Suc (ticks w)\<rparr>"
    and upd: "upd = (\<lambda>u. From_update ''profiles'' [(''avatar_url'', JStr publicUrl)]
                          [(''id'', JStr (id_of u))])"
  shows "uploadAvatar f w
           = (\<lparr>data = None, error = None, url = Some publicUrl\<rparr>,
              snd (updateProfile [(''avatar_url'', JStr publicUrl)] w3)) \<and>
         calls (snd (uploadAvatar f w))
           = calls w @ [Auth_getUser, Storage_upload ''profile-avatars'' fileName True,
                        Auth_getUser]
               @ (case getUser_reply w (Suc (Suc (length (calls w)))) of
                    None \<Rightarrow> [] | Some u \<Rightarrow> [upd u]) \<and>
         fst (updateProfile [(''avatar_url'', JStr publicUrl)] w3)
           = (case getUser_reply w (Suc (Suc (length (calls w)))) of
                None \<Rightarrow> \<lparr>data = None, error = Some (Err ''Not authenticated''), url = None\<rparr>
              | Some u \<Rightarrow> \<lparr>data = None,
                           error = write_error w (Suc (Suc (Suc (length (calls w))))) (upd u),
                           url = None\<rparr>)"
proof -
  have run: "uploadAvatar f w
           = (\<lparr>data = None, error = None, url = Some publicUrl\<rparr>,
              snd (updateProfile [(''avatar_url'', JStr publicUrl)] w3))"
    using cfg usr accepted unfolding fileName publicUrl w3
    by (simp add: uploadAvatar_def updateProfile_def getCurrentUser_def new_Date_def
        mutate_def sent_def Let_def split_beta split: option.splits)
  have profile: "fst (updateProfile [(''avatar_url'', JStr publicUrl)] w3)
           = (case getUser_reply w (Suc (Suc (length (calls w)))) of
                None \<Rightarrow> \<lparr>data = None, error = Some (Err ''Not authenticated''), url = None\<rparr>
              | Some u \<Rightarrow> \<lparr>data = None,
                           error = write_error w (Suc (Suc (Suc (length (calls w))))) (upd u),
                           url = None\<rparr>)"
    using cfg
    by (simp add: w3 upd updateProfile_def getCurrentUser_def mutate_def sent_def Let_def
        split_beta not_authenticated_def split: option.splits)
  have sent_all: "calls (snd (updateProfile [(''avatar_url'', JStr publicUrl)] w3))
           = calls w @ [Auth_getUser, Storage_upload ''profile-avatars'' fileName True,
                        Auth_getUser]
               @ (case getUser_reply w (Suc (Suc (length (calls w)))) of
                    None \<Rightarrow> [] | Some u \<Rightarrow> [upd u])"
    using cfg
    by (simp add: w3 upd updateProfile_def getCurrentUser_def mutate_def sent_def Let_def
        split_beta split: option.splits)
  from run profile sent_all show ?thesis by simp
qed

text \<open>
  A run in which the backend refuses the profile update: \<open>updateProfile\<close> returns the
  error, \<open>uploadAvatar\<close> returns the URL.
\<close>

theorem uploadAvatar_url_despite_profile_update_witness:
  "supabase world_profile_refused \<and>
   getUser_reply world_profile_refused (length (calls world_profile_refused))
     = Some (User ''u1'') \<and>
   write_error world_profile_refused (Suc (length (calls world_profile_refused)))
     (Storage_upload ''profile-avatars'' ''u1-1712145600000.jpg'' True) = None \<and>
   calls (snd (uploadAvatar (File ''me.jpg'') world_profile_refused))
     = [Auth_getUser,
        Storage_upload ''profile-avatars'' ''u1-1712145600000.jpg'' True,
        Auth_getUser,
        From_update ''profiles''
          [(''avatar_url'', JStr ''https://cdn.example/profile-avatars/u1-1712145600000.jpg'')]
          [(''id'', JStr ''u1'')]] \<and>
   fst (updateProfile
          [(''avatar_url'', JStr ''https://cdn.example/profile-avatars/u1-1712145600000.jpg'')]
          (world_profile_refused
             \<lparr>calls := calls world_profile_refused
                  @ [Auth_getUser,
                     Storage_upload ''profile-avatars'' ''u1-1712145600000.jpg'' True],
              ticks := Suc (ticks world_profile_refused)\<rparr>))
     = \<lparr>data = None, error = Some (Err ''permission denied''), url = None\<rparr> \<and>
   fst (uploadAvatar (File ''me.jpg'') world_profile_refused)
     = \<lparr>data = None, error = None,
        url = Some ''https://cdn.example/profile-avatars/u1-1712145600000.jpg''\<rparr>"
proof -
  have cfg: "supabase world_profile_refused"
    and usr: "getUser_reply world_profile_refused (length (calls world_profile_refused))
                = Some (User ''u1'')"
    and again: "getUser_reply world_profile_refused
                  (Suc (Suc (length (calls world_profile_refused)))) = Some (User ''u1'')"
    and none: "calls world_profile_refused = []"
    by (simp_all add: world_profile_refused_def world0_def)
  have name: "''u1-1712145600000.jpg''
      = id_of (User ''u1'') @ ''-''
          @ Number_toString (exponent_form world_profile_refused)
              (clock world_profile_refused (ticks world_profile_refused))
          @ ''.'' @ extension (file_name (File ''me.jpg''))"
    by (simp add: world_profile_refused_def world0_def extension_def Number_toString_def
        show_int_def digits.simps)
  have accepted: "write_error world_profile_refused
      (Suc (length (calls world_profile_refused)))
      (Storage_upload ''profile-avatars'' ''u1-1712145600000.jpg'' True) = None"
    by (simp add: world_profile_refused_def world0_def)
  have link: "''https://cdn.example/profile-avatars/u1-1712145600000.jpg''
      = getPublicUrl world_profile_refused ''profile-avatars'' ''u1-1712145600000.jpg''"
    by (simp add: world_profile_refused_def world0_def)
  have refused: "write_error world_profile_refused
      (Suc (Suc (Suc (length (calls world_profile_refused)))))
      (From_update ''profiles''
          [(''avatar_url'', JStr ''https://cdn.example/profile-avatars/u1-1712145600000.jpg'')]
          [(''id'', JStr ''u1'')]) = Some (Err ''permission denied'')"
    by (simp add: world_profile_refused_def world0_def)
  note T = uploadAvatar_url_despite_profile_update [OF cfg usr name accepted link refl refl]
  from T [THEN conjunct1]
  have result: "fst (uploadAvatar (File ''me.jpg'') world_profile_refused)
     = \<lparr>data = None, error = None,
        url = Some ''https://cdn.example/profile-avatars/u1-1712145600000.jpg''\<rparr>"
    by simp
  from T [THEN conjunct2, THEN conjunct1] again none
  have requests: "calls (snd (uploadAvatar (File ''me.jpg'') world_profile_refused))
     = [Auth_getUser,
        Storage_upload ''profile-avatars'' ''u1-1712145600000.jpg'' True,
        Auth_getUser,
        From_update ''profiles''
          [(''avatar_url'', JStr ''https://cdn.example/profile-avatars/u1-1712145600000.jpg'')]
          [(''id'', JStr ''u1'')]]"
    by simp
  from T [THEN conjunct2, THEN conjunct2] again refused
  have dropped: "fst (updateProfile
          [(''avatar_url'', JStr ''https://cdn.example/profile-avatars/u1-1712145600000.jpg'')]
          (world_profile_refused
             \<lparr>calls := calls world_profile_refused
                  @ [Auth_getUser,
                     Storage_upload ''profile-avatars'' ''u1-1712145600000.jpg'' True],
              ticks := Suc (ticks world_profile_refused)\<rparr>))
     = \<lparr>data = None, error = Some (Err ''permission denied''), url = None\<rparr>"
    by simp
  from cfg usr accepted result requests dropped show ?thesis
    by (simp only: simp_thms)
qed

end
